theory Spec2Isabelle
  imports Main
begin

section \<open>Python values, attributes and dictionaries\<close>

text \<open>
  The fields of \<^verbatim>\<open>rest_framework_nested/relations.py\<close> work by attribute
  introspection on arbitrary Python objects. A value is \<open>None\<close>, a boolean, an
  integer, a string, an object (its class and its attribute dictionary) or a
  queryset (the rows it holds). \<open>rest_framework.relations.PKOnlyObject\<close> is
  the one class the code tests for with \<open>isinstance\<close>.
\<close>

datatype pyclass = PKOnlyObject | UserClass string

datatype pyval =
    PNone
  | PBool bool
  | PInt int
  | PStr string
  | PObj pyclass "(string \<times> pyval) list"
  | PQuerySet "pyval list"

datatype error =
    AttributeError
  | TypeError
  | KeyError
  | NoReverseMatch
  | ObjectDoesNotExist
  | MultipleObjectsReturned

type_synonym pydict = "(pyval \<times> pyval) list"

text \<open>
  Every call the fields make to a collaborator that is not theirs (the URL
  resolver, the base class, the queryset, the model's related accessor) is
  recorded, in order, next to the result of the method.
\<close>

datatype event =
    ReverseCall pyval pydict pyval pyval
  | BaseInitCall "pyval list" "(string \<times> pyval) list"
  | BaseGetQuerysetCall
  | QuerysetGetCall pydict
  | RelatedAccessorRead pyval pyval

type_synonym 'a outcome = "(error + 'a) \<times> event list"

text \<open>Python truthiness: \<open>if x\<close>, \<open>not x\<close>. A queryset is true when it has a row;
  an object without \<open>__bool__\<close> and \<open>__len__\<close> is true.\<close>

fun truthy :: "pyval \<Rightarrow> bool" where
  "truthy PNone = False"
| "truthy (PBool b) = b"
| "truthy (PInt i) = (i \<noteq> 0)"
| "truthy (PStr s) = (s \<noteq> [])"
| "truthy (PObj c attrs) = True"
| "truthy (PQuerySet rows) = (rows \<noteq> [])"

text \<open>\<open>getattr(obj, name)\<close>: a name that is not a string is a \<open>TypeError\<close>, a
  missing attribute an \<open>AttributeError\<close>. Only objects carry attributes.\<close>

fun py_getattr :: "pyval \<Rightarrow> pyval \<Rightarrow> error + pyval" where
  "py_getattr (PObj c attrs) (PStr name) =
     (case map_of attrs name of None \<Rightarrow> Inl AttributeError | Some v \<Rightarrow> Inr v)"
| "py_getattr obj (PStr name) = Inl AttributeError"
| "py_getattr obj name = Inl TypeError"

text \<open>\<open>hasattr(obj, name)\<close> is \<open>getattr\<close> with the \<open>AttributeError\<close> caught.\<close>

definition py_hasattr :: "pyval \<Rightarrow> pyval \<Rightarrow> error + bool" where
  "py_hasattr obj name =
     (case py_getattr obj name of
        Inr v \<Rightarrow> Inr True
      | Inl AttributeError \<Rightarrow> Inr False
      | Inl e \<Rightarrow> Inl e)"

fun isinstance_PKOnlyObject :: "pyval \<Rightarrow> bool" where
  "isinstance_PKOnlyObject (PObj PKOnlyObject attrs) = True"
| "isinstance_PKOnlyObject v = False"

fun is_str :: "pyval \<Rightarrow> bool" where
  "is_str (PStr s) = True"
| "is_str v = False"

text \<open>Dictionaries keep insertion order and one entry per key: storing under a
  key that is present replaces its value in place.\<close>

fun dict_setitem :: "'k \<Rightarrow> 'v \<Rightarrow> ('k \<times> 'v) list \<Rightarrow> ('k \<times> 'v) list" where
  "dict_setitem k v [] = [(k, v)]"
| "dict_setitem k v ((k', v') # d) =
     (if k' = k then (k, v) # d else (k', v') # dict_setitem k v d)"

text \<open>A dictionary display \<open>{k1: v1, k2: v2}\<close> stores its items from left to right.\<close>

definition dict_display :: "('k \<times> 'v) list \<Rightarrow> ('k \<times> 'v) list" where
  "dict_display items = foldl (\<lambda>d (k, v). dict_setitem k v d) [] items"

definition dict_getitem :: "('k \<times> 'v) list \<Rightarrow> 'k \<Rightarrow> error + 'v" where
  "dict_getitem d k = (case map_of d k of None \<Rightarrow> Inl KeyError | Some v \<Rightarrow> Inr v)"

text \<open>\<open>d.pop(k, default)\<close>: the value and the dictionary without the key.\<close>

definition dict_pop :: "('k \<times> 'v) list \<Rightarrow> 'k \<Rightarrow> 'v \<Rightarrow> 'v \<times> ('k \<times> 'v) list" where
  "dict_pop d k dflt =
     (case map_of d k of None \<Rightarrow> dflt | Some v \<Rightarrow> v, filter (\<lambda>(k', v). k' \<noteq> k) d)"

text \<open>Sequencing: an exception raised by a step ends the method there.\<close>

fun attempt :: "error + 'a \<Rightarrow> ('a \<Rightarrow> 'b outcome) \<Rightarrow> 'b outcome" where
  "attempt (Inl e) k = (Inl e, [])"
| "attempt (Inr x) k = k x"


section \<open>The fields\<close>

text \<open>
  The attributes of the base class \<open>HyperlinkedRelatedField\<close> that the two
  subclasses read: its lookup configuration, its queryset, and the serializer
  it is bound to (\<open>parent\<close>, \<open>root\<close>, \<open>source\<close>).
\<close>

record hyperlinked_related_field =
  lookup_field :: pyval
  lookup_url_kwarg :: pyval
  queryset :: pyval
  parent :: pyval
  root :: pyval
  source :: pyval

record nested_hyperlinked_related_field = hyperlinked_related_field +
  parent_lookup_field :: pyval
  parent_lookup_url_kwarg :: pyval
  parent_lookup_related_field :: pyval

text \<open>The collaborators are parameters: \<open>self.reverse\<close>, the base class's
  \<open>__init__\<close> and \<open>get_queryset\<close>, and the ORM's test of a row against a lookup.\<close>

type_synonym resolver = "pyval \<Rightarrow> pydict \<Rightarrow> pyval \<Rightarrow> pyval \<Rightarrow> error + pyval"

type_synonym orm_match = "pyval \<Rightarrow> pydict \<Rightarrow> bool"


subsection \<open>NestedHyperlinkedRelatedField\<close>

text \<open>The class attributes. The base class's \<open>__init__\<close> reads \<open>lookup_field\<close>
  as the default of the field's own \<open>lookup_field\<close>.\<close>

definition class_lookup_field :: pyval where
  "class_lookup_field = PStr ''pk''"

definition class_parent_lookup_field :: pyval where
  "class_parent_lookup_field = PStr ''parent''"

definition class_parent_lookup_related_field :: pyval where
  "class_parent_lookup_related_field = PStr ''pk''"

text \<open>\<open>__init__\<close> pops its three options off \<open>kwargs\<close> and hands the rest to the
  base class, whose attributes the new field inherits. An exception of the base
  class's \<open>__init__\<close> leaves no field.\<close>

definition nested_init ::
  "(pyval list \<Rightarrow> (string \<times> pyval) list \<Rightarrow> error + hyperlinked_related_field)
     \<Rightarrow> pyval list \<Rightarrow> (string \<times> pyval) list
     \<Rightarrow> nested_hyperlinked_related_field outcome" where
  "nested_init base_init args kwargs =
     (let (self_parent_lookup_field, kwargs1) =
            dict_pop kwargs ''parent_lookup_field'' class_parent_lookup_field;
          (self_parent_lookup_url_kwarg, kwargs2) =
            dict_pop kwargs1 ''parent_lookup_url_kwarg'' self_parent_lookup_field;
          (self_parent_lookup_related_field, kwargs3) =
            dict_pop kwargs2 ''parent_lookup_related_field'' class_parent_lookup_related_field
      in (case base_init args kwargs3 of
            Inl e \<Rightarrow> Inl e
          | Inr base \<Rightarrow> Inr
              \<lparr>lookup_field = lookup_field base,
               lookup_url_kwarg = lookup_url_kwarg base,
               queryset = queryset base,
               parent = parent base,
               root = root base,
               source = source base,
               parent_lookup_field = self_parent_lookup_field,
               parent_lookup_url_kwarg = self_parent_lookup_url_kwarg,
               parent_lookup_related_field = self_parent_lookup_related_field\<rparr>,
          [BaseInitCall args kwargs3]))"

definition nested_get_url ::
  "resolver \<Rightarrow> nested_hyperlinked_related_field \<Rightarrow> pyval \<Rightarrow> pyval \<Rightarrow> pyval \<Rightarrow> pyval
     \<Rightarrow> pyval outcome" where
  "nested_get_url reverse self obj view_name request format =
     attempt (py_hasattr obj (PStr ''pk'')) (\<lambda>has_pk.
     if has_pk \<and> py_getattr obj (PStr ''pk'') = Inr PNone then (Inr PNone, [])
     else
       attempt (py_getattr obj (lookup_field self)) (\<lambda>lookup_value.
       attempt (py_getattr obj (parent_lookup_field self)) (\<lambda>parent_lookup_object.
       attempt (if truthy parent_lookup_object
                then py_getattr parent_lookup_object (parent_lookup_related_field self)
                else Inr PNone) (\<lambda>parent_lookup_value.
       let kwargs = dict_display
             [(lookup_url_kwarg self, lookup_value),
              (parent_lookup_url_kwarg self, parent_lookup_value)]
       in (reverse view_name kwargs request format,
           [ReverseCall view_name kwargs request format])))))"


text \<open>
  Modelled from the spec: the queryset's \<open>get\<close> is the ORM's and not part of
  this repository. The lookup is executed against the rows of the queryset and
  expects exactly one match: no matching row is "object not found", more than
  one is "multiple objects found". When a row matches a lookup is the ORM's
  matter and stays a parameter.
\<close>

definition matching_rows :: "orm_match \<Rightarrow> pyval list \<Rightarrow> pydict \<Rightarrow> pyval list" where
  "matching_rows matches rows lookup_kwargs = filter (\<lambda>row. matches row lookup_kwargs) rows"

definition queryset_get :: "orm_match \<Rightarrow> pyval list \<Rightarrow> pydict \<Rightarrow> error + pyval" where
  "queryset_get matches rows lookup_kwargs =
     (case matching_rows matches rows lookup_kwargs of
        [] \<Rightarrow> Inl ObjectDoesNotExist
      | [row] \<Rightarrow> Inr row
      | row # others \<Rightarrow> Inl MultipleObjectsReturned)"

text \<open>\<open>self.get_queryset().get(**lookup_kwargs)\<close>: the base class's
  \<open>get_queryset\<close> runs first; a result that is no queryset has no \<open>get\<close>; the
  keywords of a call must be strings.\<close>

definition nested_get_object ::
  "(nested_hyperlinked_related_field \<Rightarrow> error + pyval) \<Rightarrow> orm_match
     \<Rightarrow> nested_hyperlinked_related_field \<Rightarrow> pyval \<Rightarrow> pyval list \<Rightarrow> pydict
     \<Rightarrow> pyval outcome" where
  "nested_get_object base_get_queryset matches self view_name view_args view_kwargs =
     attempt (dict_getitem view_kwargs (lookup_url_kwarg self)) (\<lambda>lookup_value.
     attempt (dict_getitem view_kwargs (parent_lookup_url_kwarg self)) (\<lambda>parent_lookup_value.
     let lookup_kwargs = dict_display
           [(lookup_field self, lookup_value),
            (parent_lookup_field self, parent_lookup_value)]
     in (case base_get_queryset self of
           Inl e \<Rightarrow> (Inl e, [BaseGetQuerysetCall])
         | Inr (PQuerySet rows) \<Rightarrow>
             if list_all (\<lambda>(k, v). is_str k) lookup_kwargs
             then (queryset_get matches rows lookup_kwargs,
                   [BaseGetQuerysetCall, QuerysetGetCall lookup_kwargs])
             else (Inl TypeError, [BaseGetQuerysetCall])
         | Inr other \<Rightarrow> (Inl AttributeError, [BaseGetQuerysetCall]))))"


subsection \<open>HyperlinkedRouterField\<close>

text \<open>\<open>view_name\<close> is \<open>None\<close> when the caller leaves it out.\<close>

definition router_init ::
  "(pyval list \<Rightarrow> (string \<times> pyval) list \<Rightarrow> error + hyperlinked_related_field)
     \<Rightarrow> pyval \<Rightarrow> (string \<times> pyval) list \<Rightarrow> hyperlinked_related_field outcome" where
  "router_init base_init view_name kwargs =
     (let kwargs' = dict_setitem ''many'' (PBool False) kwargs
      in (base_init [view_name] kwargs', [BaseInitCall [view_name] kwargs']))"

text \<open>
  A call \<open>HyperlinkedRouterField(view_name, **kwargs)\<close> runs \<open>__new__\<close> first and
  \<open>__init__\<close> only on an instance of the class that \<open>__new__\<close> returns. The
  class defines no \<open>__new__\<close>: it inherits the base class's, a parameter here,
  which either makes a plain instance (\<open>None\<close>) or goes the many-relation way
  with the \<open>kwargs\<close> it has left. That way the class is called once more with
  those \<open>kwargs\<close>, and the field so built becomes the child of a many-relation
  field, on which this class's \<open>__init__\<close> does not run.
\<close>

datatype constructed =
    FieldInstance hyperlinked_related_field
  | ManyRelatedField hyperlinked_related_field

definition router_call ::
  "((string \<times> pyval) list \<Rightarrow> (string \<times> pyval) list option)
     \<Rightarrow> (pyval list \<Rightarrow> (string \<times> pyval) list \<Rightarrow> error + hyperlinked_related_field)
     \<Rightarrow> pyval \<Rightarrow> (string \<times> pyval) list \<Rightarrow> constructed outcome" where
  "router_call base_new base_init view_name kwargs =
     (case base_new kwargs of
        None \<Rightarrow>
          (case router_init base_init view_name kwargs of
             (Inl e, evs) \<Rightarrow> (Inl e, evs)
           | (Inr self, evs) \<Rightarrow> (Inr (FieldInstance self), evs))
      | Some child_kwargs \<Rightarrow>
          (case router_init base_init view_name child_kwargs of
             (Inl e, evs) \<Rightarrow> (Inl e, evs)
           | (Inr child_relation, evs) \<Rightarrow> (Inr (ManyRelatedField child_relation), evs)))"

text \<open>The last line of \<open>get_queryset\<close>: the base class's method is called and its
  result dropped; the method itself falls off its end, which returns \<open>None\<close>.\<close>

definition super_get_queryset ::
  "(hyperlinked_related_field \<Rightarrow> error + pyval) \<Rightarrow> event list
     \<Rightarrow> hyperlinked_related_field \<Rightarrow> pyval outcome \<times> hyperlinked_related_field" where
  "super_get_queryset base_get_queryset evs self =
     ((case base_get_queryset self of Inl e \<Rightarrow> Inl e | Inr qs \<Rightarrow> Inr PNone,
       evs @ [BaseGetQuerysetCall]), self)"

text \<open>\<open>get_queryset\<close> assigns \<open>self.queryset\<close>: the field is returned with the
  outcome. An exception before the assignment leaves the field as it was.\<close>

definition router_get_queryset ::
  "(hyperlinked_related_field \<Rightarrow> error + pyval) \<Rightarrow> hyperlinked_related_field
     \<Rightarrow> pyval outcome \<times> hyperlinked_related_field" where
  "router_get_queryset base_get_queryset self =
     (if \<not> truthy (queryset self) then
        (case py_getattr (parent self) (PStr ''Meta'') of
           Inl e \<Rightarrow> ((Inl e, []), self)
         | Inr meta \<Rightarrow>
        (case py_getattr meta (PStr ''model'') of
           Inl e \<Rightarrow> ((Inl e, []), self)
         | Inr model \<Rightarrow>
        (case py_getattr model (source self) of
           Inl e \<Rightarrow> ((Inl e, [RelatedAccessorRead model (source self)]), self)
         | Inr accessor \<Rightarrow>
        (case py_getattr accessor (PStr ''related'') of
           Inl e \<Rightarrow> ((Inl e, [RelatedAccessorRead model (source self)]), self)
         | Inr related \<Rightarrow>
             super_get_queryset base_get_queryset
               [RelatedAccessorRead model (source self)]
               (self\<lparr>queryset := related\<rparr>)))))
      else super_get_queryset base_get_queryset [] self)"

text \<open>Repeated calls on one field instance; a caller may go on after an
  exception. The outcomes are returned in the order of the calls.\<close>

fun repeat_get_queryset ::
  "(hyperlinked_related_field \<Rightarrow> error + pyval) \<Rightarrow> nat \<Rightarrow> hyperlinked_related_field
     \<Rightarrow> pyval outcome list \<times> hyperlinked_related_field" where
  "repeat_get_queryset base_get_queryset 0 self = ([], self)"
| "repeat_get_queryset base_get_queryset (Suc n) self =
     (let (out, self') = router_get_queryset base_get_queryset self;
          (outs, self'') = repeat_get_queryset base_get_queryset n self'
      in (out # outs, self''))"

fun is_accessor_read :: "event \<Rightarrow> bool" where
  "is_accessor_read (RelatedAccessorRead model name) = True"
| "is_accessor_read ev = False"

definition router_get_url ::
  "resolver \<Rightarrow> hyperlinked_related_field \<Rightarrow> pyval \<Rightarrow> pyval \<Rightarrow> pyval \<Rightarrow> pyval
     \<Rightarrow> pyval outcome" where
  "router_get_url reverse self obj view_name request format =
     attempt (py_hasattr obj (lookup_field self)) (\<lambda>has_lookup.
     if has_lookup \<and> py_getattr obj (lookup_field self) = Inr PNone then (Inr PNone, [])
     else
       attempt (py_hasattr obj (PStr ''instance'')) (\<lambda>has_instance.
       attempt (if has_instance
                then (case py_getattr obj (PStr ''instance'') of
                        Inl e \<Rightarrow> Inl e
                      | Inr inst \<Rightarrow>
                          (case py_hasattr inst (lookup_field self) of
                             Inl e \<Rightarrow> Inl e
                           | Inr h \<Rightarrow>
                               Inr (h \<and> py_getattr inst (lookup_field self) = Inr PNone)))
                else Inr False) (\<lambda>instance_unsaved.
       if instance_unsaved then (Inr PNone, [])
       else
         let finish = (\<lambda>lookup_value.
               let kwargs = dict_display [(lookup_url_kwarg self, lookup_value)]
               in (reverse view_name kwargs request format,
                   [ReverseCall view_name kwargs request format]))
         in
           if isinstance_PKOnlyObject obj then
             attempt (py_getattr (root self) (PStr ''instance'')) (\<lambda>root_instance.
             attempt (py_getattr root_instance (lookup_field self)) finish)
           else
             attempt (py_hasattr obj (lookup_field self)) (\<lambda>h.
             if h then attempt (py_getattr obj (lookup_field self)) finish
             else
               attempt (py_getattr obj (PStr ''instance'')) (\<lambda>inst.
               attempt (py_hasattr inst (lookup_field self)) (\<lambda>h2.
               if h2 then attempt (py_getattr inst (lookup_field self)) finish
               else (Inr PNone, [])))))))"



section \<open>Vocabulary of the statements\<close>

text \<open>The object holds a null lookup value: its own lookup attribute is \<open>None\<close>,
  or it has an \<open>instance\<close> whose lookup attribute is \<open>None\<close>.\<close>

definition holds_null :: "hyperlinked_related_field \<Rightarrow> pyval \<Rightarrow> bool" where
  "holds_null self obj =
     (py_getattr obj (lookup_field self) = Inr PNone
      \<or> (case py_getattr obj (PStr ''instance'') of
            Inl e \<Rightarrow> False
          | Inr inst \<Rightarrow> py_getattr inst (lookup_field self) = Inr PNone))"

text \<open>Delegating to the resolver with the single-key mapping of a lookup value.\<close>

definition delegate ::
  "resolver \<Rightarrow> hyperlinked_related_field \<Rightarrow> pyval \<Rightarrow> pyval \<Rightarrow> pyval \<Rightarrow> pyval
     \<Rightarrow> pyval outcome" where
  "delegate reverse self view_name request format lookup_value =
     (reverse view_name [(lookup_url_kwarg self, lookup_value)] request format,
      [ReverseCall view_name [(lookup_url_kwarg self, lookup_value)] request format])"

text \<open>
  The router field's forward mapping as the specification words it, for
  comparison with \<open>router_get_url\<close>: null when the object or its instance holds
  a null lookup value; else the first value found by looking at (a) the bound
  object directly, (b) its wrapped instance, (c) for a PK-only placeholder the
  serializer root's bound instance; null when none of them exposes a non-null
  value.
\<close>

definition spec_locate_lookup_value :: "hyperlinked_related_field \<Rightarrow> pyval \<Rightarrow> pyval option" where
  "spec_locate_lookup_value self obj =
     (let direct = py_getattr obj (lookup_field self);
          wrapped = (case py_getattr obj (PStr ''instance'') of
                       Inl e \<Rightarrow> Inl e
                     | Inr inst \<Rightarrow> py_getattr inst (lookup_field self));
          rooted = (case py_getattr (root self) (PStr ''instance'') of
                      Inl e \<Rightarrow> Inl e
                    | Inr inst \<Rightarrow> py_getattr inst (lookup_field self))
      in if direct = Inr PNone \<or> wrapped = Inr PNone then None
         else (case direct of
                 Inr v \<Rightarrow> Some v
               | Inl e \<Rightarrow>
                   (case wrapped of
                      Inr v \<Rightarrow> Some v
                    | Inl e' \<Rightarrow>
                        if isinstance_PKOnlyObject obj
                        then (case rooted of
                                Inr v \<Rightarrow> if v = PNone then None else Some v
                              | Inl e'' \<Rightarrow> None)
                        else None)))"

definition spec_router_get_url ::
  "resolver \<Rightarrow> hyperlinked_related_field \<Rightarrow> pyval \<Rightarrow> pyval \<Rightarrow> pyval \<Rightarrow> pyval
     \<Rightarrow> pyval outcome" where
  "spec_router_get_url reverse self obj view_name request format =
     (case spec_locate_lookup_value self obj of
        None \<Rightarrow> (Inr PNone, [])
      | Some lookup_value \<Rightarrow> delegate reverse self view_name request format lookup_value)"


section \<open>A worked configuration\<close>

text \<open>
  The scenario of the specification: children addressed under their parent,
  \<open>/parents/{parent_pk}/children/{pk}/\<close>, and the parent's link to its
  children, \<open>/parents/{parent_pk}/children/\<close>. The resolver looks a view name
  and a mapping up in a table of routes; the base class's \<open>get_queryset\<close> hands
  out the stored queryset and its \<open>__init__\<close> keeps the lookup options and the
  queryset; a row matches a lookup when each named attribute equals the given
  value or is a related object whose \<open>pk\<close> does.
\<close>

definition parent_2 :: pyval where
  "parent_2 = PObj (UserClass ''Parent'') [(''pk'', PInt 2)]"

definition parent_unsaved :: pyval where
  "parent_unsaved = PObj (UserClass ''Parent'') [(''pk'', PNone)]"

definition child_5 :: pyval where
  "child_5 = PObj (UserClass ''Child'') [(''pk'', PInt 5), (''parent'', parent_2)]"

definition child_5_again :: pyval where
  "child_5_again =
     PObj (UserClass ''Child'') [(''pk'', PInt 5), (''parent'', parent_2), (''copy'', PBool True)]"

definition child_orphan :: pyval where
  "child_orphan = PObj (UserClass ''Child'') [(''pk'', PInt 6), (''parent'', PNone)]"

definition child_unsaved :: pyval where
  "child_unsaved = PObj (UserClass ''Child'') [(''pk'', PNone), (''parent'', parent_2)]"

definition child_detail :: pyval where
  "child_detail = PStr ''child-detail''"

definition child_list :: pyval where
  "child_list = PStr ''child-list''"

definition url_conf :: "(pyval \<times> pydict \<times> string) list" where
  "url_conf =
     [(child_detail, [(PStr ''pk'', PInt 5), (PStr ''parent_pk'', PInt 2)],
         ''/parents/2/children/5/''),
      (child_detail, [(PStr ''pk'', PInt 2)], ''/children/2/''),
      (child_list, [(PStr ''parent_pk'', PInt 2)], ''/parents/2/children/'')]"

definition table_reverse :: "(pyval \<times> pydict \<times> string) list \<Rightarrow> resolver" where
  "table_reverse table view_name kwargs request format =
     (case find (\<lambda>(name, route_kwargs, url). name = view_name \<and> route_kwargs = kwargs) table of
        None \<Rightarrow> Inl NoReverseMatch
      | Some (name, route_kwargs, url) \<Rightarrow> Inr (PStr url))"

definition routes :: resolver where
  "routes = table_reverse url_conf"

definition stored_queryset :: "'a hyperlinked_related_field_scheme \<Rightarrow> error + pyval" where
  "stored_queryset self = Inr (queryset self)"

definition keeping_base_init ::
  "pyval list \<Rightarrow> (string \<times> pyval) list \<Rightarrow> error + hyperlinked_related_field" where
  "keeping_base_init args kwargs =
     (let own = (case map_of kwargs ''lookup_field'' of None \<Rightarrow> PStr ''pk'' | Some v \<Rightarrow> v)
      in Inr \<lparr>lookup_field = own,
              lookup_url_kwarg =
                (case map_of kwargs ''lookup_url_kwarg'' of None \<Rightarrow> own | Some v \<Rightarrow> v),
              queryset = (case map_of kwargs ''queryset'' of None \<Rightarrow> PNone | Some v \<Rightarrow> v),
              parent = PNone,
              root = PNone,
              source = PNone\<rparr>)"

text \<open>The \<open>__new__\<close> of the serializer framework's related fields:
  \<open>if kwargs.pop('many', False): return cls.many_init(*args, **kwargs)\<close>.\<close>

definition drf_new :: "(string \<times> pyval) list \<Rightarrow> (string \<times> pyval) list option" where
  "drf_new kwargs =
     (let (many, kwargs') = dict_pop kwargs ''many'' (PBool False)
      in if truthy many then Some kwargs' else None)"

fun attr_matches :: "pyval \<Rightarrow> pyval \<times> pyval \<Rightarrow> bool" where
  "attr_matches row (name, v) =
     (case py_getattr row name of
        Inl e \<Rightarrow> False
      | Inr a \<Rightarrow> a = v \<or> py_getattr a (PStr ''pk'') = Inr v)"

definition orm_exact_match :: orm_match where
  "orm_exact_match row lookup_kwargs = list_all (attr_matches row) lookup_kwargs"

definition child_field :: nested_hyperlinked_related_field where
  "child_field =
     \<lparr>lookup_field = PStr ''pk'',
      lookup_url_kwarg = PStr ''pk'',
      queryset = PQuerySet [child_5, child_orphan],
      parent = PNone,
      root = PNone,
      source = PNone,
      parent_lookup_field = PStr ''parent'',
      parent_lookup_url_kwarg = PStr ''parent_pk'',
      parent_lookup_related_field = PStr ''pk''\<rparr>"

text \<open>The same field over a table in which child 5 is stored twice.\<close>

definition doubled_field :: nested_hyperlinked_related_field where
  "doubled_field = child_field\<lparr>queryset := PQuerySet [child_5, child_5_again]\<rparr>"

text \<open>The same field with both path parameters under the one name \<open>pk\<close>.\<close>

definition clash_field :: nested_hyperlinked_related_field where
  "clash_field = child_field\<lparr>parent_lookup_url_kwarg := PStr ''pk''\<rparr>"

text \<open>The parent's serializer and its router field for \<open>children\<close>. The model's
  accessor carries a relation object under \<open>related\<close>.\<close>

definition children_rel :: pyval where
  "children_rel = PObj (UserClass ''ManyToOneRel'') []"

definition parent_model :: pyval where
  "parent_model =
     PObj (UserClass ''Parent'')
       [(''children'', PObj (UserClass ''Descriptor'') [(''related'', children_rel)])]"

definition parent_serializer :: pyval where
  "parent_serializer =
     PObj (UserClass ''ParentSerializer'')
       [(''Meta'', PObj (UserClass ''Meta'') [(''model'', parent_model)]),
        (''instance'', parent_2)]"

definition children_field :: hyperlinked_related_field where
  "children_field =
     \<lparr>lookup_field = PStr ''pk'',
      lookup_url_kwarg = PStr ''parent_pk'',
      queryset = PNone,
      parent = parent_serializer,
      root = parent_serializer,
      source = PStr ''children''\<rparr>"

text \<open>A model whose accessor carries \<open>None\<close> under \<open>related\<close>.\<close>

definition unset_model :: pyval where
  "unset_model =
     PObj (UserClass ''Parent'')
       [(''children'', PObj (UserClass ''Descriptor'') [(''related'', PNone)])]"

definition unset_field :: hyperlinked_related_field where
  "unset_field =
     children_field
       \<lparr>parent := PObj (UserClass ''ParentSerializer'')
                    [(''Meta'', PObj (UserClass ''Meta'') [(''model'', unset_model)])]\<rparr>"

text \<open>The values a router field is asked to link: the related manager of parent 2,
  a manager whose instance has no \<open>pk\<close>, and the PK-only placeholder of child 7.\<close>

definition children_manager :: pyval where
  "children_manager = PObj (UserClass ''RelatedManager'') [(''instance'', parent_2)]"

definition bare_manager :: pyval where
  "bare_manager =
     PObj (UserClass ''RelatedManager'') [(''instance'', PObj (UserClass ''Parent'') [])]"

definition pk_only_7 :: pyval where
  "pk_only_7 = PObj PKOnlyObject [(''pk'', PInt 7)]"


section \<open>Properties\<close>

subsection \<open>Attributes and dictionaries\<close>

lemma py_hasattr_of_getattr:
  "py_getattr obj name = Inr v \<Longrightarrow> py_hasattr obj name = Inr True"
  by (simp add: py_hasattr_def)

lemma py_hasattr_str:
  "py_hasattr obj (PStr name) = Inr (\<exists>v. py_getattr obj (PStr name) = Inr v)"
  by (cases "(obj, PStr name)" rule: py_getattr.cases)
     (auto simp add: py_hasattr_def split: option.splits)

lemma py_getattr_is_str: "py_getattr obj name = Inr v \<Longrightarrow> is_str name"
  by (cases "(obj, name)" rule: py_getattr.cases) auto

lemma py_getattr_AttributeError_is_str:
  "py_getattr obj name = Inl AttributeError \<Longrightarrow> is_str name"
  by (cases "(obj, name)" rule: py_getattr.cases) auto

lemma is_str_PStr: "is_str name \<Longrightarrow> \<exists>s. name = PStr s"
  by (cases name) auto

lemma dict_display_pair:
  "dict_display [(a, x), (b, y)] = (if a = b then [(b, y)] else [(a, x), (b, y)])"
  by (simp add: dict_display_def)

lemma dict_display_single: "dict_display [(a, x)] = [(a, x)]"
  by (simp add: dict_display_def)

lemma dict_display_pair_keys:
  "is_str a \<Longrightarrow> is_str b \<Longrightarrow> list_all (\<lambda>(k, v). is_str k) (dict_display [(a, x), (b, y)])"
  by (simp add: dict_display_pair)

lemma map_of_dict_setitem:
  "map_of (dict_setitem k v d) k' = (if k' = k then Some v else map_of d k')"
  by (induction d) auto

lemma map_of_filter_neq:
  "map_of (filter (\<lambda>(k', v). k' \<noteq> k) d) k'' = (if k'' = k then None else map_of d k'')"
  by (induction d) auto

lemmas example_defs =
  parent_2_def parent_unsaved_def child_5_def child_5_again_def child_orphan_def
  child_unsaved_def child_detail_def child_list_def url_conf_def table_reverse_def
  routes_def stored_queryset_def keeping_base_init_def drf_new_def orm_exact_match_def
  child_field_def
  doubled_field_def clash_field_def children_rel_def parent_model_def parent_serializer_def
  children_field_def unset_model_def unset_field_def children_manager_def bare_manager_def
  pk_only_7_def


subsection \<open>NestedHyperlinkedRelatedField\<close>

text \<open>
  C4. An object whose \<open>pk\<close> attribute exists and is \<open>None\<close> gets no URL:
  \<open>get_url\<close> returns \<open>None\<close> and the resolver is not called.
\<close>

theorem nested_get_url_unsaved:
  assumes "py_getattr obj (PStr ''pk'') = Inr PNone"
  shows "nested_get_url reverse self obj view_name request format = (Inr PNone, [])"
  using assms by (simp add: nested_get_url_def py_hasattr_of_getattr)

theorem nested_get_url_unsaved_witness:
  "py_getattr child_unsaved (PStr ''pk'') = Inr PNone
   \<and> nested_get_url routes child_field child_unsaved child_detail PNone PNone
       = (Inr PNone, [])"
proof -
  have unset: "py_getattr child_unsaved (PStr ''pk'') = Inr PNone"
    by (simp add: child_unsaved_def)
  show ?thesis
    using unset nested_get_url_unsaved [OF unset] by simp
qed

text \<open>
  C1 (as amended). For an object with a set primary key whose lookup attribute
  and parent attribute can be read, and a field whose two path-parameter names
  differ, \<open>get_url\<close> calls the resolver once, with exactly the two-key mapping
  \<open>{lookup_url_kwarg: lookup value, parent_lookup_url_kwarg: parent value}\<close>,
  and returns what the resolver returns. The parent value is read off a present
  (truthy) parent under \<open>parent_lookup_related_field\<close>; for an absent (falsy)
  parent it is \<open>None\<close> and nothing is raised on the way to the resolver.
\<close>

theorem nested_get_url_kwargs:
  assumes pk: "py_getattr obj (PStr ''pk'') = Inr pk" "pk \<noteq> PNone"
    and lv: "py_getattr obj (lookup_field self) = Inr lookup_value"
    and po: "py_getattr obj (parent_lookup_field self) = Inr parent_object"
    and pv: "truthy parent_object \<Longrightarrow>
             py_getattr parent_object (parent_lookup_related_field self) = Inr parent_value"
    and distinct: "lookup_url_kwarg self \<noteq> parent_lookup_url_kwarg self"
  shows "nested_get_url reverse self obj view_name request format
           = (reverse view_name
                [(lookup_url_kwarg self, lookup_value),
                 (parent_lookup_url_kwarg self,
                  if truthy parent_object then parent_value else PNone)]
                request format,
              [ReverseCall view_name
                [(lookup_url_kwarg self, lookup_value),
                 (parent_lookup_url_kwarg self,
                  if truthy parent_object then parent_value else PNone)]
                request format])"
proof (cases "truthy parent_object")
  case True
  with pk lv po pv [OF True] distinct show ?thesis
    by (simp add: nested_get_url_def py_hasattr_def dict_display_pair Let_def)
next
  case False
  with pk lv po distinct show ?thesis
    by (simp add: nested_get_url_def py_hasattr_def dict_display_pair Let_def)
qed

theorem nested_get_url_kwargs_witness:
  "py_getattr child_5 (PStr ''pk'') = Inr (PInt 5)
   \<and> py_getattr child_5 (lookup_field child_field) = Inr (PInt 5)
   \<and> py_getattr child_5 (parent_lookup_field child_field) = Inr parent_2
   \<and> truthy parent_2
   \<and> py_getattr parent_2 (parent_lookup_related_field child_field) = Inr (PInt 2)
   \<and> lookup_url_kwarg child_field \<noteq> parent_lookup_url_kwarg child_field
   \<and> nested_get_url routes child_field child_5 child_detail PNone PNone
       = (Inr (PStr ''/parents/2/children/5/''),
          [ReverseCall child_detail [(PStr ''pk'', PInt 5), (PStr ''parent_pk'', PInt 2)]
             PNone PNone])
   \<and> py_getattr child_orphan (PStr ''pk'') = Inr (PInt 6)
   \<and> py_getattr child_orphan (parent_lookup_field child_field) = Inr PNone
   \<and> nested_get_url routes child_field child_orphan child_detail PNone PNone
       = (Inl NoReverseMatch,
          [ReverseCall child_detail [(PStr ''pk'', PInt 6), (PStr ''parent_pk'', PNone)]
             PNone PNone])"
proof -
  have present: "py_getattr child_5 (PStr ''pk'') = Inr (PInt 5)"
    "py_getattr child_5 (lookup_field child_field) = Inr (PInt 5)"
    "py_getattr child_5 (parent_lookup_field child_field) = Inr parent_2"
    "truthy parent_2"
    "py_getattr parent_2 (parent_lookup_related_field child_field) = Inr (PInt 2)"
    by (simp_all add: child_5_def parent_2_def child_field_def)
  have absent: "py_getattr child_orphan (PStr ''pk'') = Inr (PInt 6)"
    "py_getattr child_orphan (lookup_field child_field) = Inr (PInt 6)"
    "py_getattr child_orphan (parent_lookup_field child_field) = Inr PNone"
    by (simp_all add: child_orphan_def child_field_def)
  have conf: "lookup_url_kwarg child_field = PStr ''pk''"
    "parent_lookup_url_kwarg child_field = PStr ''parent_pk''"
    by (simp_all add: child_field_def)
  have distinct: "lookup_url_kwarg child_field \<noteq> parent_lookup_url_kwarg child_field"
    by (simp add: conf)
  have one: "nested_get_url routes child_field child_5 child_detail PNone PNone
       = (Inr (PStr ''/parents/2/children/5/''),
          [ReverseCall child_detail [(PStr ''pk'', PInt 5), (PStr ''parent_pk'', PInt 2)]
             PNone PNone])"
    using nested_get_url_kwargs
      [OF present(1) _ present(2) present(3) present(5) distinct,
       of routes child_detail PNone PNone] present(4)
    by (simp add: conf routes_def table_reverse_def url_conf_def
          child_detail_def child_list_def)
  have two: "nested_get_url routes child_field child_orphan child_detail PNone PNone
       = (Inl NoReverseMatch,
          [ReverseCall child_detail [(PStr ''pk'', PInt 6), (PStr ''parent_pk'', PNone)]
             PNone PNone])"
    using nested_get_url_kwargs
      [OF absent(1) _ absent(2) absent(3) _ distinct, of PNone routes child_detail PNone PNone]
    by (simp add: conf routes_def table_reverse_def url_conf_def
          child_detail_def child_list_def)
  show ?thesis
    using present absent distinct one two by simp
qed

text \<open>
  C1 as stated fails when the two path parameters share a name: for child 5
  of parent 2 every attribute is readable, and the mapping that reaches the
  resolver has the one entry \<open>{pk: 2}\<close>; the object's own value 5 is not in it.
\<close>

theorem nested_get_url_kwargs_counterexample:
  "py_getattr child_5 (PStr ''pk'') = Inr (PInt 5)
   \<and> py_getattr child_5 (lookup_field clash_field) = Inr (PInt 5)
   \<and> py_getattr child_5 (parent_lookup_field clash_field) = Inr parent_2
   \<and> truthy parent_2
   \<and> py_getattr parent_2 (parent_lookup_related_field clash_field) = Inr (PInt 2)
   \<and> lookup_url_kwarg clash_field = PStr ''pk''
   \<and> parent_lookup_url_kwarg clash_field = PStr ''pk''
   \<and> snd (nested_get_url routes clash_field child_5 child_detail PNone PNone)
       = [ReverseCall child_detail [(PStr ''pk'', PInt 2)] PNone PNone]"
  by (simp add: nested_get_url_def py_hasattr_def dict_display_pair Let_def
        child_5_def parent_2_def clash_field_def child_field_def)

text \<open>
  C2 (as amended). Let \<open>get_url\<close> pass the mapping \<open>kwargs\<close> to the resolver for an
  object that the queryset holds as the only match of the compound lookup
  \<open>{lookup_field: its lookup value, parent_lookup_field: its parent's value}\<close>.
  When the two path-parameter names differ, \<open>get_object\<close> applied to \<open>kwargs\<close>
  returns that object.
\<close>

theorem nested_get_object_inverts_get_url:
  assumes fwd: "snd (nested_get_url reverse self obj view_name request format)
                  = [ReverseCall view_name kwargs request format]"
    and lv: "py_getattr obj (lookup_field self) = Inr lookup_value"
    and po: "py_getattr obj (parent_lookup_field self) = Inr parent_object"
    and pv: "truthy parent_object \<Longrightarrow>
             py_getattr parent_object (parent_lookup_related_field self) = Inr parent_value"
    and qs: "base_get_queryset self = Inr (PQuerySet rows)"
    and unique: "matching_rows matches rows
                   (dict_display
                      [(lookup_field self, lookup_value),
                       (parent_lookup_field self,
                        if truthy parent_object then parent_value else PNone)]) = [obj]"
    and distinct: "lookup_url_kwarg self \<noteq> parent_lookup_url_kwarg self"
  shows "fst (nested_get_object base_get_queryset matches self view_name' view_args kwargs)
           = Inr obj"
proof -
  let ?pid = "if truthy parent_object then parent_value else PNone"
  have pid: "(if truthy parent_object
              then py_getattr parent_object (parent_lookup_related_field self)
              else Inr PNone) = Inr ?pid"
    using pv by simp
  have kwargs: "kwargs = [(lookup_url_kwarg self, lookup_value),
                          (parent_lookup_url_kwarg self, ?pid)]"
  proof (cases "py_getattr obj (PStr ''pk'') = Inr PNone")
    case True
    then show ?thesis
      using fwd by (simp add: nested_get_url_def py_hasattr_def)
  next
    case False
    with fwd lv po pid distinct show ?thesis
      by (simp add: nested_get_url_def py_hasattr_str dict_display_pair Let_def)
  qed
  have names: "is_str (lookup_field self)" "is_str (parent_lookup_field self)"
    using lv po by (auto dest: py_getattr_is_str)
  have "nested_get_object base_get_queryset matches self view_name' view_args kwargs
          = (queryset_get matches rows
               (dict_display [(lookup_field self, lookup_value),
                              (parent_lookup_field self, ?pid)]),
             [BaseGetQuerysetCall,
              QuerysetGetCall (dict_display [(lookup_field self, lookup_value),
                                             (parent_lookup_field self, ?pid)])])"
    using distinct qs dict_display_pair_keys [OF names, of lookup_value ?pid]
    by (simp add: kwargs nested_get_object_def dict_getitem_def Let_def del: if_split
          cong: if_cong)
  then show ?thesis
    using unique by (simp add: queryset_get_def)
qed

theorem nested_get_object_inverts_get_url_witness:
  "snd (nested_get_url routes child_field child_5 child_detail PNone PNone)
     = [ReverseCall child_detail [(PStr ''pk'', PInt 5), (PStr ''parent_pk'', PInt 2)]
          PNone PNone]
   \<and> matching_rows orm_exact_match [child_5, child_orphan]
        (dict_display [(PStr ''pk'', PInt 5), (PStr ''parent'', PInt 2)]) = [child_5]
   \<and> lookup_url_kwarg child_field \<noteq> parent_lookup_url_kwarg child_field
   \<and> fst (nested_get_object stored_queryset orm_exact_match child_field child_detail []
            [(PStr ''pk'', PInt 5), (PStr ''parent_pk'', PInt 2)]) = Inr child_5"
proof -
  have fwd: "snd (nested_get_url routes child_field child_5 child_detail PNone PNone)
     = [ReverseCall child_detail [(PStr ''pk'', PInt 5), (PStr ''parent_pk'', PInt 2)]
          PNone PNone]"
    by (simp add: nested_get_url_def py_hasattr_def dict_display_pair Let_def
          child_field_def child_5_def parent_2_def)
  have attrs: "py_getattr child_5 (lookup_field child_field) = Inr (PInt 5)"
    "py_getattr child_5 (parent_lookup_field child_field) = Inr parent_2"
    "py_getattr parent_2 (parent_lookup_related_field child_field) = Inr (PInt 2)"
    by (simp_all add: child_5_def parent_2_def child_field_def)
  have qs: "stored_queryset child_field = Inr (PQuerySet [child_5, child_orphan])"
    by (simp add: stored_queryset_def child_field_def)
  have unique: "matching_rows orm_exact_match [child_5, child_orphan]
        (dict_display [(PStr ''pk'', PInt 5), (PStr ''parent'', PInt 2)]) = [child_5]"
    by (simp add: matching_rows_def orm_exact_match_def dict_display_pair
          child_5_def child_orphan_def parent_2_def)
  have unique': "matching_rows orm_exact_match [child_5, child_orphan]
        (dict_display
           [(lookup_field child_field, PInt 5),
            (parent_lookup_field child_field, if truthy parent_2 then PInt 2 else PNone)])
          = [child_5]"
    using unique by (simp add: child_field_def parent_2_def)
  have distinct: "lookup_url_kwarg child_field \<noteq> parent_lookup_url_kwarg child_field"
    by (simp add: child_field_def)
  show ?thesis
    using fwd unique distinct
      nested_get_object_inverts_get_url
        [where base_get_queryset = stored_queryset and self = child_field
           and view_name' = child_detail and view_args = "[]",
         OF fwd attrs(1) attrs(2) attrs(3) qs unique' distinct]
    by simp
qed

text \<open>
  C2 as stated fails when the two path parameters share a name: the mapping of
  child 5 (parent 2) then holds the parent's value alone, and \<open>get_object\<close> looks
  for \<open>pk = 2\<close>, although child 5 is the only match of \<open>{pk: 5, parent: 2}\<close>.
\<close>

theorem nested_get_object_inverts_get_url_counterexample:
  "matching_rows orm_exact_match [child_5, child_orphan]
        (dict_display [(PStr ''pk'', PInt 5), (PStr ''parent'', PInt 2)]) = [child_5]
   \<and> stored_queryset clash_field = Inr (PQuerySet [child_5, child_orphan])
   \<and> nested_get_url routes clash_field child_5 child_detail PNone PNone
       = (Inr (PStr ''/children/2/''),
          [ReverseCall child_detail [(PStr ''pk'', PInt 2)] PNone PNone])
   \<and> nested_get_object stored_queryset orm_exact_match clash_field child_detail []
        [(PStr ''pk'', PInt 2)]
       = (Inl ObjectDoesNotExist,
          [BaseGetQuerysetCall,
           QuerysetGetCall [(PStr ''pk'', PInt 2), (PStr ''parent'', PInt 2)]])"
  by (simp add: matching_rows_def orm_exact_match_def dict_display_pair queryset_get_def
        nested_get_url_def nested_get_object_def dict_getitem_def py_hasattr_def Let_def
        example_defs)

text \<open>
  C5. When both path parameters are present and the field's queryset is a
  queryset, \<open>get_object\<close> returns the outcome of the queryset's \<open>get\<close> for the
  compound lookup as it is: "object not found" when no row matches, "multiple
  objects found" when two or more do.
\<close>

theorem nested_get_object_lookup_failures:
  assumes lv: "dict_getitem view_kwargs (lookup_url_kwarg self) = Inr lookup_value"
    and pv: "dict_getitem view_kwargs (parent_lookup_url_kwarg self) = Inr parent_lookup_value"
    and qs: "base_get_queryset self = Inr (PQuerySet rows)"
    and names: "is_str (lookup_field self)" "is_str (parent_lookup_field self)"
  shows "let lookup_kwargs = dict_display
               [(lookup_field self, lookup_value),
                (parent_lookup_field self, parent_lookup_value)];
             found = matching_rows matches rows lookup_kwargs;
             outcome = nested_get_object base_get_queryset matches self
                         view_name view_args view_kwargs
         in outcome = (queryset_get matches rows lookup_kwargs,
                       [BaseGetQuerysetCall, QuerysetGetCall lookup_kwargs])
            \<and> (length found = 0 \<longrightarrow> fst outcome = Inl ObjectDoesNotExist)
            \<and> (2 \<le> length found \<longrightarrow> fst outcome = Inl MultipleObjectsReturned)"
proof -
  let ?kw = "dict_display [(lookup_field self, lookup_value),
                           (parent_lookup_field self, parent_lookup_value)]"
  have run: "nested_get_object base_get_queryset matches self view_name view_args view_kwargs
               = (queryset_get matches rows ?kw, [BaseGetQuerysetCall, QuerysetGetCall ?kw])"
    using lv pv qs dict_display_pair_keys [OF names]
    by (simp add: nested_get_object_def Let_def)
  have none: "length (matching_rows matches rows ?kw) = 0 \<Longrightarrow>
              queryset_get matches rows ?kw = Inl ObjectDoesNotExist"
    by (simp add: queryset_get_def)
  have many: "2 \<le> length (matching_rows matches rows ?kw) \<Longrightarrow>
              queryset_get matches rows ?kw = Inl MultipleObjectsReturned"
    by (cases "matching_rows matches rows ?kw" rule: remdups_adj.cases)
       (simp_all add: queryset_get_def)
  show ?thesis
    using run none many by (simp add: Let_def)
qed

theorem nested_get_object_lookup_failures_witness:
  "dict_getitem [(PStr ''pk'', PInt 9), (PStr ''parent_pk'', PInt 2)]
       (lookup_url_kwarg child_field) = Inr (PInt 9)
   \<and> length (matching_rows orm_exact_match [child_5, child_orphan]
        [(PStr ''pk'', PInt 9), (PStr ''parent'', PInt 2)]) = 0
   \<and> fst (nested_get_object stored_queryset orm_exact_match child_field child_detail []
        [(PStr ''pk'', PInt 9), (PStr ''parent_pk'', PInt 2)]) = Inl ObjectDoesNotExist
   \<and> 2 \<le> length (matching_rows orm_exact_match [child_5, child_5_again]
        [(PStr ''pk'', PInt 5), (PStr ''parent'', PInt 2)])
   \<and> fst (nested_get_object stored_queryset orm_exact_match doubled_field child_detail []
        [(PStr ''pk'', PInt 5), (PStr ''parent_pk'', PInt 2)]) = Inl MultipleObjectsReturned"
proof -
  have conf: "lookup_url_kwarg child_field = PStr ''pk''"
    "parent_lookup_url_kwarg child_field = PStr ''parent_pk''"
    "lookup_field child_field = PStr ''pk''"
    "parent_lookup_field child_field = PStr ''parent''"
    "lookup_url_kwarg doubled_field = PStr ''pk''"
    "parent_lookup_url_kwarg doubled_field = PStr ''parent_pk''"
    "lookup_field doubled_field = PStr ''pk''"
    "parent_lookup_field doubled_field = PStr ''parent''"
    by (simp_all add: child_field_def doubled_field_def)
  have qs: "stored_queryset child_field = Inr (PQuerySet [child_5, child_orphan])"
    "stored_queryset doubled_field = Inr (PQuerySet [child_5, child_5_again])"
    by (simp_all add: stored_queryset_def child_field_def doubled_field_def)
  have none: "length (matching_rows orm_exact_match [child_5, child_orphan]
        [(PStr ''pk'', PInt 9), (PStr ''parent'', PInt 2)]) = 0"
    by (simp add: matching_rows_def orm_exact_match_def child_5_def child_orphan_def
          parent_2_def)
  have twice: "2 \<le> length (matching_rows orm_exact_match [child_5, child_5_again]
        [(PStr ''pk'', PInt 5), (PStr ''parent'', PInt 2)])"
    by (simp add: matching_rows_def orm_exact_match_def child_5_def child_5_again_def
          parent_2_def)
  have one: "fst (nested_get_object stored_queryset orm_exact_match child_field child_detail []
        [(PStr ''pk'', PInt 9), (PStr ''parent_pk'', PInt 2)]) = Inl ObjectDoesNotExist"
    using none
      nested_get_object_lookup_failures
        [where base_get_queryset = stored_queryset and self = child_field
           and view_kwargs = "[(PStr ''pk'', PInt 9), (PStr ''parent_pk'', PInt 2)]"
           and lookup_value = "PInt 9" and parent_lookup_value = "PInt 2"
           and matches = orm_exact_match and view_name = child_detail and view_args = "[]",
         OF _ _ qs(1)]
    by (auto simp add: conf dict_getitem_def dict_display_pair Let_def)
  have two: "fst (nested_get_object stored_queryset orm_exact_match doubled_field child_detail []
        [(PStr ''pk'', PInt 5), (PStr ''parent_pk'', PInt 2)]) = Inl MultipleObjectsReturned"
    using twice
      nested_get_object_lookup_failures
        [where base_get_queryset = stored_queryset and self = doubled_field
           and view_kwargs = "[(PStr ''pk'', PInt 5), (PStr ''parent_pk'', PInt 2)]"
           and lookup_value = "PInt 5" and parent_lookup_value = "PInt 2"
           and matches = orm_exact_match and view_name = child_detail and view_args = "[]",
         OF _ _ qs(2)]
    by (auto simp add: conf dict_getitem_def dict_display_pair Let_def)
  show ?thesis
    using none twice one two by (simp add: conf dict_getitem_def)
qed

text \<open>
  C8. In every field that \<open>__init__\<close> builds, \<open>parent_lookup_url_kwarg\<close> is the
  value the caller gave for it; when the caller gave none it equals the field's
  \<open>parent_lookup_field\<close>, which is the caller's \<open>parent_lookup_field\<close> when
  that was given and \<open>'parent'\<close> otherwise.
\<close>

theorem nested_init_parent_lookup_url_kwarg:
  assumes "nested_init base_init args kwargs = (Inr self, evs)"
  shows "(map_of kwargs ''parent_lookup_url_kwarg'' = None \<longrightarrow>
            parent_lookup_url_kwarg self = parent_lookup_field self)
         \<and> (\<forall>v. map_of kwargs ''parent_lookup_url_kwarg'' = Some v \<longrightarrow>
            parent_lookup_url_kwarg self = v)
         \<and> (\<forall>v. map_of kwargs ''parent_lookup_field'' = Some v \<longrightarrow>
            parent_lookup_field self = v)
         \<and> (map_of kwargs ''parent_lookup_field'' = None \<longrightarrow>
            parent_lookup_field self = PStr ''parent'')"
  using assms
  by (auto simp add: nested_init_def dict_pop_def Let_def map_of_filter_neq
        class_parent_lookup_field_def split: sum.splits option.splits)

theorem nested_init_parent_lookup_url_kwarg_witness:
  "(\<exists>self evs. nested_init keeping_base_init []
        [(''view_name'', child_detail), (''parent_lookup_field'', PStr ''owner'')]
       = (Inr self, evs)
      \<and> parent_lookup_field self = PStr ''owner''
      \<and> parent_lookup_url_kwarg self = PStr ''owner'')
   \<and> (\<exists>self evs. nested_init keeping_base_init []
        [(''view_name'', child_detail), (''parent_lookup_url_kwarg'', PStr ''parent_pk'')]
       = (Inr self, evs)
      \<and> parent_lookup_field self = PStr ''parent''
      \<and> parent_lookup_url_kwarg self = PStr ''parent_pk'')"
proof -
  obtain self1 evs1 where built1: "nested_init keeping_base_init []
        [(''view_name'', child_detail), (''parent_lookup_field'', PStr ''owner'')]
       = (Inr self1, evs1)"
    by (simp add: nested_init_def dict_pop_def keeping_base_init_def Let_def)
  obtain self2 evs2 where built2: "nested_init keeping_base_init []
        [(''view_name'', child_detail), (''parent_lookup_url_kwarg'', PStr ''parent_pk'')]
       = (Inr self2, evs2)"
    by (simp add: nested_init_def dict_pop_def keeping_base_init_def Let_def)
  have "parent_lookup_field self1 = PStr ''owner''
        \<and> parent_lookup_url_kwarg self1 = PStr ''owner''"
    using nested_init_parent_lookup_url_kwarg [OF built1] by simp
  moreover have "parent_lookup_field self2 = PStr ''parent''
        \<and> parent_lookup_url_kwarg self2 = PStr ''parent_pk''"
    using nested_init_parent_lookup_url_kwarg [OF built2] by simp
  ultimately show ?thesis
    using built1 built2 by blast
qed

text \<open>
  C10. \<open>get_object\<close> needs both path parameters in the mapping: when either key
  is missing it raises \<open>KeyError\<close>, and neither the base class's \<open>get_queryset\<close>
  nor the queryset's \<open>get\<close> has been called.
\<close>

theorem nested_get_object_missing_key:
  assumes "map_of view_kwargs (lookup_url_kwarg self) = None
           \<or> map_of view_kwargs (parent_lookup_url_kwarg self) = None"
  shows "nested_get_object base_get_queryset matches self view_name view_args view_kwargs
           = (Inl KeyError, [])"
  using assms
  by (auto simp add: nested_get_object_def dict_getitem_def split: option.splits)

theorem nested_get_object_missing_key_witness:
  "map_of [(PStr ''pk'', PInt 5)] (parent_lookup_url_kwarg child_field) = None
   \<and> nested_get_object stored_queryset orm_exact_match child_field child_detail []
        [(PStr ''pk'', PInt 5)] = (Inl KeyError, [])
   \<and> map_of [(PStr ''parent_pk'', PInt 2)] (lookup_url_kwarg child_field) = None
   \<and> nested_get_object stored_queryset orm_exact_match child_field child_detail []
        [(PStr ''parent_pk'', PInt 2)] = (Inl KeyError, [])"
proof -
  have no_parent: "map_of [(PStr ''pk'', PInt 5)] (parent_lookup_url_kwarg child_field) = None"
    by (simp add: child_field_def)
  have no_own: "map_of [(PStr ''parent_pk'', PInt 2)] (lookup_url_kwarg child_field) = None"
    by (simp add: child_field_def)
  show ?thesis
    using no_parent no_own
      nested_get_object_missing_key
        [where self = child_field and view_kwargs = "[(PStr ''pk'', PInt 5)]"
           and base_get_queryset = stored_queryset and matches = orm_exact_match
           and view_name = child_detail and view_args = "[]", OF disjI2, OF no_parent]
      nested_get_object_missing_key
        [where self = child_field and view_kwargs = "[(PStr ''parent_pk'', PInt 2)]"
           and base_get_queryset = stored_queryset and matches = orm_exact_match
           and view_name = child_detail and view_args = "[]", OF disjI1, OF no_own]
    by simp
qed


subsection \<open>HyperlinkedRouterField\<close>

text \<open>What \<open>__init__\<close> does on its own: whatever the caller passes, the base class's
  \<open>__init__\<close> receives a \<open>kwargs\<close> whose \<open>many\<close> is \<open>False\<close>, and every other
  option as the caller gave it.\<close>

lemma router_init_many_off:
  "\<exists>kwargs'. router_init base_init view_name kwargs
                = (base_init [view_name] kwargs', [BaseInitCall [view_name] kwargs'])
             \<and> dict_getitem kwargs' ''many'' = Inr (PBool False)
             \<and> (\<forall>k. k \<noteq> ''many'' \<longrightarrow> map_of kwargs' k = map_of kwargs k)"
  by (simp add: router_init_def Let_def dict_getitem_def map_of_dict_setitem)

text \<open>
  C7. The field is meant never to stand for a many-relation list, whatever
  \<open>many\<close> the caller supplies. The construction
  \<open>HyperlinkedRouterField('child-list', lookup_url_kwarg='parent_pk', many=True)\<close>
  does not keep to that: the inherited \<open>__new__\<close> has acted on \<open>many=True\<close>
  before \<open>__init__\<close> stores \<open>False\<close>. \<open>__init__\<close> runs for the child relation
  only, where it hands \<open>many = False\<close> to the base class, and the call returns
  a many-relation field around that child.
\<close>

theorem router_call_many_true:
  "router_call drf_new keeping_base_init child_list
       [(''lookup_url_kwarg'', PStr ''parent_pk''), (''many'', PBool True)]
     = (Inr (ManyRelatedField
               \<lparr>lookup_field = PStr ''pk'',
                lookup_url_kwarg = PStr ''parent_pk'',
                queryset = PNone,
                parent = PNone,
                root = PNone,
                source = PNone\<rparr>),
        [BaseInitCall [child_list]
           [(''lookup_url_kwarg'', PStr ''parent_pk''), (''many'', PBool False)]])"
  by (simp add: router_call_def drf_new_def dict_pop_def router_init_def
        keeping_base_init_def Let_def)

text \<open>
  C9. \<open>get_queryset\<close> never returns a value other than \<open>None\<close>. With a cached
  (truthy) queryset the base class's \<open>get_queryset\<close> is called and the call
  returns \<open>None\<close>; with a freshly read handle the handle is stored, the base
  class's method is called, and the call returns \<open>None\<close>, not the handle.
\<close>

lemma router_get_queryset_cached:
  "truthy (queryset self) \<Longrightarrow>
   router_get_queryset b self =
     ((case b self of Inl e \<Rightarrow> Inl e | Inr qs \<Rightarrow> Inr PNone, [BaseGetQuerysetCall]), self)"
  by (simp add: router_get_queryset_def super_get_queryset_def)

lemma router_get_queryset_value:
  "fst (fst (router_get_queryset b self)) = Inr v \<Longrightarrow> v = PNone"
  by (auto simp add: router_get_queryset_def super_get_queryset_def split: if_splits sum.splits)

theorem router_get_queryset_returns_none:
  "(\<forall>v. fst (fst (router_get_queryset b self)) = Inr v \<longrightarrow> v = PNone)
   \<and> (truthy (queryset self) \<and> b self = Inr qs \<longrightarrow>
        router_get_queryset b self = ((Inr PNone, [BaseGetQuerysetCall]), self))
   \<and> (\<not> truthy (queryset self)
        \<and> py_getattr (parent self) (PStr ''Meta'') = Inr meta
        \<and> py_getattr meta (PStr ''model'') = Inr model
        \<and> py_getattr model (source self) = Inr accessor
        \<and> py_getattr accessor (PStr ''related'') = Inr related
        \<and> b (self\<lparr>queryset := related\<rparr>) = Inr qs \<longrightarrow>
        router_get_queryset b self =
          ((Inr PNone, [RelatedAccessorRead model (source self), BaseGetQuerysetCall]),
           self\<lparr>queryset := related\<rparr>))"
proof (intro conjI allI impI)
  fix v assume "fst (fst (router_get_queryset b self)) = Inr v"
  then show "v = PNone" by (rule router_get_queryset_value)
next
  assume "truthy (queryset self) \<and> b self = Inr qs"
  then show "router_get_queryset b self = ((Inr PNone, [BaseGetQuerysetCall]), self)"
    by (simp add: router_get_queryset_cached)
next
  assume "\<not> truthy (queryset self)
        \<and> py_getattr (parent self) (PStr ''Meta'') = Inr meta
        \<and> py_getattr meta (PStr ''model'') = Inr model
        \<and> py_getattr model (source self) = Inr accessor
        \<and> py_getattr accessor (PStr ''related'') = Inr related
        \<and> b (self\<lparr>queryset := related\<rparr>) = Inr qs"
  then show "router_get_queryset b self =
          ((Inr PNone, [RelatedAccessorRead model (source self), BaseGetQuerysetCall]),
           self\<lparr>queryset := related\<rparr>)"
    by (simp add: router_get_queryset_def super_get_queryset_def)
qed

theorem router_get_queryset_returns_none_witness:
  "\<not> truthy (queryset children_field)
   \<and> router_get_queryset stored_queryset children_field
       = ((Inr PNone, [RelatedAccessorRead parent_model (PStr ''children''),
                       BaseGetQuerysetCall]),
          children_field\<lparr>queryset := children_rel\<rparr>)
   \<and> truthy (queryset (children_field\<lparr>queryset := children_rel\<rparr>))
   \<and> stored_queryset (children_field\<lparr>queryset := children_rel\<rparr>) = Inr children_rel
   \<and> router_get_queryset stored_queryset (children_field\<lparr>queryset := children_rel\<rparr>)
       = ((Inr PNone, [BaseGetQuerysetCall]), children_field\<lparr>queryset := children_rel\<rparr>)"
proof -
  have fresh: "\<not> truthy (queryset children_field)"
    "py_getattr (parent children_field) (PStr ''Meta'')
       = Inr (PObj (UserClass ''Meta'') [(''model'', parent_model)])"
    "py_getattr (PObj (UserClass ''Meta'') [(''model'', parent_model)]) (PStr ''model'')
       = Inr parent_model"
    "py_getattr parent_model (source children_field)
       = Inr (PObj (UserClass ''Descriptor'') [(''related'', children_rel)])"
    "py_getattr (PObj (UserClass ''Descriptor'') [(''related'', children_rel)]) (PStr ''related'')
       = Inr children_rel"
    "stored_queryset (children_field\<lparr>queryset := children_rel\<rparr>) = Inr children_rel"
    by (simp_all add: children_field_def parent_serializer_def parent_model_def
          stored_queryset_def)
  have cached: "truthy (queryset (children_field\<lparr>queryset := children_rel\<rparr>))"
    by (simp add: children_rel_def)
  have src: "source children_field = PStr ''children''"
    by (simp add: children_field_def)
  have one: "router_get_queryset stored_queryset children_field
       = ((Inr PNone, [RelatedAccessorRead parent_model (PStr ''children''),
                       BaseGetQuerysetCall]),
          children_field\<lparr>queryset := children_rel\<rparr>)"
    using fresh src
      router_get_queryset_returns_none
        [where b = stored_queryset and self = children_field
           and meta = "PObj (UserClass ''Meta'') [(''model'', parent_model)]"
           and model = parent_model
           and accessor = "PObj (UserClass ''Descriptor'') [(''related'', children_rel)]"
           and related = children_rel and qs = children_rel]
    by simp
  have two: "router_get_queryset stored_queryset (children_field\<lparr>queryset := children_rel\<rparr>)
       = ((Inr PNone, [BaseGetQuerysetCall]), children_field\<lparr>queryset := children_rel\<rparr>)"
    using cached fresh(6)
      router_get_queryset_returns_none
        [where b = stored_queryset and self = "children_field\<lparr>queryset := children_rel\<rparr>"
           and qs = children_rel]
    by simp
  show ?thesis
    using fresh(1) fresh(6) cached one two by simp
qed

text \<open>
  C6 (as amended). A single call reads the related accessor at most once. Once a
  call has left a truthy queryset handle on the field (by storing what it read,
  or because the field held one already), every later call leaves the field as
  it is and reads the accessor no more.
\<close>

lemma router_get_queryset_reads:
  "length (filter is_accessor_read (snd (fst (router_get_queryset b self)))) \<le> 1"
  by (simp add: router_get_queryset_def super_get_queryset_def split: sum.splits)

lemma repeat_get_queryset_cached:
  "truthy (queryset self) \<Longrightarrow>
   snd (repeat_get_queryset b n self) = self
   \<and> list_all (\<lambda>out. \<not> list_ex is_accessor_read (snd out)) (fst (repeat_get_queryset b n self))"
  by (induction n) (simp_all add: router_get_queryset_cached split_beta Let_def)

theorem router_get_queryset_memoized:
  assumes "router_get_queryset b self = (out, self1)"
    and "truthy (queryset self1)"
  shows "length (filter is_accessor_read (snd out)) \<le> 1
         \<and> snd (repeat_get_queryset b n self1) = self1
         \<and> list_all (\<lambda>later. \<not> list_ex is_accessor_read (snd later))
              (fst (repeat_get_queryset b n self1))"
  using assms router_get_queryset_reads [of b self] repeat_get_queryset_cached [of self1 b n]
  by simp

theorem router_get_queryset_memoized_witness:
  "router_get_queryset stored_queryset children_field
     = ((Inr PNone, [RelatedAccessorRead parent_model (PStr ''children''),
                     BaseGetQuerysetCall]),
        children_field\<lparr>queryset := children_rel\<rparr>)
   \<and> truthy (queryset (children_field\<lparr>queryset := children_rel\<rparr>))
   \<and> repeat_get_queryset stored_queryset (Suc (Suc 0))
        (children_field\<lparr>queryset := children_rel\<rparr>)
       = ([(Inr PNone, [BaseGetQuerysetCall]), (Inr PNone, [BaseGetQuerysetCall])],
          children_field\<lparr>queryset := children_rel\<rparr>)"
proof -
  have first: "router_get_queryset stored_queryset children_field
     = ((Inr PNone, [RelatedAccessorRead parent_model (PStr ''children''),
                     BaseGetQuerysetCall]),
        children_field\<lparr>queryset := children_rel\<rparr>)"
    by (simp add: router_get_queryset_def super_get_queryset_def children_field_def
          parent_serializer_def parent_model_def stored_queryset_def)
  have kept: "truthy (queryset (children_field\<lparr>queryset := children_rel\<rparr>))"
    by (simp add: children_rel_def)
  have later: "repeat_get_queryset stored_queryset (Suc (Suc 0))
        (children_field\<lparr>queryset := children_rel\<rparr>)
       = ([(Inr PNone, [BaseGetQuerysetCall]), (Inr PNone, [BaseGetQuerysetCall])],
          children_field\<lparr>queryset := children_rel\<rparr>)"
    using router_get_queryset_memoized [OF first kept, of "Suc (Suc 0)"] kept
    by (simp add: router_get_queryset_cached stored_queryset_def)
  show ?thesis
    using first kept later by simp
qed

text \<open>
  C6 as stated fails when the accessor's \<open>related\<close> is falsy: the handle stored
  by the first call does not stop the second call from reading the accessor
  again.
\<close>

theorem router_get_queryset_memoized_counterexample:
  "repeat_get_queryset stored_queryset (Suc (Suc 0)) unset_field
     = ([(Inr PNone, [RelatedAccessorRead unset_model (PStr ''children''),
                      BaseGetQuerysetCall]),
         (Inr PNone, [RelatedAccessorRead unset_model (PStr ''children''),
                      BaseGetQuerysetCall])],
        unset_field)"
  by (simp add: router_get_queryset_def super_get_queryset_def unset_field_def
        children_field_def stored_queryset_def unset_model_def)

text \<open>Where \<open>router_get_url\<close> stands once its two null checks have passed.\<close>

lemma router_get_url_null:
  assumes "holds_null self obj"
  shows "router_get_url reverse self obj view_name request format = (Inr PNone, [])"
proof (cases "py_getattr obj (lookup_field self) = Inr PNone")
  case True
  then show ?thesis
    by (simp add: router_get_url_def py_hasattr_def)
next
  case False
  with assms obtain inst where inst: "py_getattr obj (PStr ''instance'') = Inr inst"
    "py_getattr inst (lookup_field self) = Inr PNone"
    by (auto simp add: holds_null_def split: sum.splits)
  then obtain s where s: "lookup_field self = PStr s"
    using py_getattr_is_str is_str_PStr by blast
  show ?thesis
    using False inst s
    by (simp add: router_get_url_def py_hasattr_str)
qed

lemma router_get_url_past_checks:
  assumes "\<not> holds_null self obj" and "lookup_field self = PStr s"
  shows "router_get_url reverse self obj view_name request format =
     (if isinstance_PKOnlyObject obj then
        attempt (py_getattr (root self) (PStr ''instance'')) (\<lambda>root_instance.
        attempt (py_getattr root_instance (lookup_field self))
          (delegate reverse self view_name request format))
      else
        attempt (py_hasattr obj (lookup_field self)) (\<lambda>h.
        if h then attempt (py_getattr obj (lookup_field self))
                    (delegate reverse self view_name request format)
        else
          attempt (py_getattr obj (PStr ''instance'')) (\<lambda>inst.
          attempt (py_hasattr inst (lookup_field self)) (\<lambda>h2.
          if h2 then attempt (py_getattr inst (lookup_field self))
                       (delegate reverse self view_name request format)
          else (Inr PNone, [])))))"
proof -
  have d: "py_getattr obj (PStr s) \<noteq> Inr PNone"
    using assms by (simp add: holds_null_def)
  have w: "\<And>inst. py_getattr obj (PStr ''instance'') = Inr inst \<Longrightarrow>
             py_getattr inst (PStr s) \<noteq> Inr PNone"
    using assms by (simp add: holds_null_def)
  have fin: "(\<lambda>lookup_value.
               (reverse view_name (dict_display [(lookup_url_kwarg self, lookup_value)])
                  request format,
                [ReverseCall view_name (dict_display [(lookup_url_kwarg self, lookup_value)])
                   request format]))
             = delegate reverse self view_name request format"
    by (rule ext) (simp add: delegate_def dict_display_single)
  show ?thesis
    using d w
    by (cases "py_getattr obj (PStr ''instance'')")
       (simp_all add: router_get_url_def Let_def fin assms(2) py_hasattr_str)
qed

text \<open>
  C3 (as amended). \<open>get_url\<close> returns null when the bound object holds a null
  lookup value itself or through its \<open>instance\<close>. Otherwise a PK-only
  placeholder gets the lookup value of the serializer root's bound instance,
  whatever it exposes itself; any other object gets its own lookup value when
  it exposes one, else that of its wrapped instance, and null when the wrapped
  instance does not expose the attribute. A lookup value that is found goes to
  the resolver in the single-key mapping \<open>{lookup_url_kwarg: lookup_value}\<close>.
\<close>

theorem router_get_url_lookup_order:
  "(holds_null self obj \<longrightarrow>
      router_get_url reverse self obj view_name request format = (Inr PNone, []))
   \<and> (\<not> holds_null self obj \<and> isinstance_PKOnlyObject obj
        \<and> py_getattr (root self) (PStr ''instance'') = Inr root_instance
        \<and> py_getattr root_instance (lookup_field self) = Inr v \<longrightarrow>
      router_get_url reverse self obj view_name request format
        = delegate reverse self view_name request format v)
   \<and> (\<not> holds_null self obj \<and> \<not> isinstance_PKOnlyObject obj
        \<and> py_getattr obj (lookup_field self) = Inr v \<longrightarrow>
      router_get_url reverse self obj view_name request format
        = delegate reverse self view_name request format v)
   \<and> (\<not> holds_null self obj \<and> \<not> isinstance_PKOnlyObject obj
        \<and> py_getattr obj (lookup_field self) = Inl AttributeError
        \<and> py_getattr obj (PStr ''instance'') = Inr inst
        \<and> py_getattr inst (lookup_field self) = Inr v \<longrightarrow>
      router_get_url reverse self obj view_name request format
        = delegate reverse self view_name request format v)
   \<and> (\<not> isinstance_PKOnlyObject obj
        \<and> py_getattr obj (lookup_field self) = Inl AttributeError
        \<and> py_getattr obj (PStr ''instance'') = Inr inst
        \<and> py_getattr inst (lookup_field self) = Inl AttributeError \<longrightarrow>
      router_get_url reverse self obj view_name request format = (Inr PNone, []))"
proof (intro conjI impI)
  assume "holds_null self obj"
  then show "router_get_url reverse self obj view_name request format = (Inr PNone, [])"
    by (rule router_get_url_null)
next
  assume a: "\<not> holds_null self obj \<and> isinstance_PKOnlyObject obj
        \<and> py_getattr (root self) (PStr ''instance'') = Inr root_instance
        \<and> py_getattr root_instance (lookup_field self) = Inr v"
  then obtain s where "lookup_field self = PStr s"
    using py_getattr_is_str is_str_PStr by blast
  with a show "router_get_url reverse self obj view_name request format
        = delegate reverse self view_name request format v"
    by (simp add: router_get_url_past_checks)
next
  assume a: "\<not> holds_null self obj \<and> \<not> isinstance_PKOnlyObject obj
        \<and> py_getattr obj (lookup_field self) = Inr v"
  then obtain s where "lookup_field self = PStr s"
    using py_getattr_is_str is_str_PStr by blast
  with a show "router_get_url reverse self obj view_name request format
        = delegate reverse self view_name request format v"
    by (simp add: router_get_url_past_checks py_hasattr_str)
next
  assume a: "\<not> holds_null self obj \<and> \<not> isinstance_PKOnlyObject obj
        \<and> py_getattr obj (lookup_field self) = Inl AttributeError
        \<and> py_getattr obj (PStr ''instance'') = Inr inst
        \<and> py_getattr inst (lookup_field self) = Inr v"
  then obtain s where "lookup_field self = PStr s"
    using py_getattr_is_str is_str_PStr by blast
  with a show "router_get_url reverse self obj view_name request format
        = delegate reverse self view_name request format v"
    by (simp add: router_get_url_past_checks py_hasattr_str)
next
  assume a: "\<not> isinstance_PKOnlyObject obj
        \<and> py_getattr obj (lookup_field self) = Inl AttributeError
        \<and> py_getattr obj (PStr ''instance'') = Inr inst
        \<and> py_getattr inst (lookup_field self) = Inl AttributeError"
  then obtain s where s: "lookup_field self = PStr s"
    using py_getattr_AttributeError_is_str is_str_PStr by blast
  from a have "\<not> holds_null self obj"
    by (simp add: holds_null_def)
  with a s show "router_get_url reverse self obj view_name request format = (Inr PNone, [])"
    by (simp add: router_get_url_past_checks py_hasattr_str)
qed

theorem router_get_url_lookup_order_witness:
  "holds_null children_field parent_unsaved
   \<and> router_get_url routes children_field parent_unsaved child_list PNone PNone
       = (Inr PNone, [])
   \<and> \<not> holds_null children_field pk_only_7 \<and> isinstance_PKOnlyObject pk_only_7
   \<and> router_get_url routes children_field pk_only_7 child_list PNone PNone
       = (Inr (PStr ''/parents/2/children/''),
          [ReverseCall child_list [(PStr ''parent_pk'', PInt 2)] PNone PNone])
   \<and> \<not> holds_null children_field parent_2 \<and> \<not> isinstance_PKOnlyObject parent_2
   \<and> router_get_url routes children_field parent_2 child_list PNone PNone
       = (Inr (PStr ''/parents/2/children/''),
          [ReverseCall child_list [(PStr ''parent_pk'', PInt 2)] PNone PNone])
   \<and> \<not> holds_null children_field children_manager
   \<and> py_getattr children_manager (lookup_field children_field) = Inl AttributeError
   \<and> router_get_url routes children_field children_manager child_list PNone PNone
       = (Inr (PStr ''/parents/2/children/''),
          [ReverseCall child_list [(PStr ''parent_pk'', PInt 2)] PNone PNone])
   \<and> py_getattr bare_manager (lookup_field children_field) = Inl AttributeError
   \<and> router_get_url routes children_field bare_manager child_list PNone PNone
       = (Inr PNone, [])"
proof -
  have sent: "delegate routes children_field child_list PNone PNone (PInt 2)
       = (Inr (PStr ''/parents/2/children/''),
          [ReverseCall child_list [(PStr ''parent_pk'', PInt 2)] PNone PNone])"
    by (simp add: delegate_def children_field_def routes_def table_reverse_def url_conf_def
          child_list_def child_detail_def)
  have unsaved: "holds_null children_field parent_unsaved"
    by (simp add: holds_null_def children_field_def parent_unsaved_def)
  have placeholder: "\<not> holds_null children_field pk_only_7" "isinstance_PKOnlyObject pk_only_7"
    "py_getattr (root children_field) (PStr ''instance'') = Inr parent_2"
    "py_getattr parent_2 (lookup_field children_field) = Inr (PInt 2)"
    by (simp_all add: holds_null_def children_field_def pk_only_7_def parent_serializer_def
          parent_2_def)
  have direct: "\<not> holds_null children_field parent_2" "\<not> isinstance_PKOnlyObject parent_2"
    by (simp_all add: holds_null_def children_field_def parent_2_def)
  have wrapped: "\<not> holds_null children_field children_manager"
    "\<not> isinstance_PKOnlyObject children_manager"
    "py_getattr children_manager (lookup_field children_field) = Inl AttributeError"
    "py_getattr children_manager (PStr ''instance'') = Inr parent_2"
    by (simp_all add: holds_null_def children_field_def children_manager_def parent_2_def)
  have bare: "\<not> isinstance_PKOnlyObject bare_manager"
    "py_getattr bare_manager (lookup_field children_field) = Inl AttributeError"
    "py_getattr bare_manager (PStr ''instance'') = Inr (PObj (UserClass ''Parent'') [])"
    "py_getattr (PObj (UserClass ''Parent'') []) (lookup_field children_field)
       = Inl AttributeError"
    by (simp_all add: children_field_def bare_manager_def)
  have one: "router_get_url routes children_field parent_unsaved child_list PNone PNone
       = (Inr PNone, [])"
    using unsaved
      router_get_url_lookup_order
        [where self = children_field and obj = parent_unsaved and reverse = routes
           and view_name = child_list and request = PNone and format = PNone]
    by blast
  have two: "router_get_url routes children_field pk_only_7 child_list PNone PNone
       = delegate routes children_field child_list PNone PNone (PInt 2)"
    using placeholder
      router_get_url_lookup_order
        [where self = children_field and obj = pk_only_7 and reverse = routes
           and view_name = child_list and request = PNone and format = PNone
           and root_instance = parent_2 and v = "PInt 2"]
    by blast
  have three: "router_get_url routes children_field parent_2 child_list PNone PNone
       = delegate routes children_field child_list PNone PNone (PInt 2)"
    using direct placeholder(4)
      router_get_url_lookup_order
        [where self = children_field and obj = parent_2 and reverse = routes
           and view_name = child_list and request = PNone and format = PNone
           and v = "PInt 2"]
    by blast
  have four: "router_get_url routes children_field children_manager child_list PNone PNone
       = delegate routes children_field child_list PNone PNone (PInt 2)"
    using wrapped placeholder(4)
      router_get_url_lookup_order
        [where self = children_field and obj = children_manager and reverse = routes
           and view_name = child_list and request = PNone and format = PNone
           and inst = parent_2 and v = "PInt 2"]
    by blast
  have five: "router_get_url routes children_field bare_manager child_list PNone PNone
       = (Inr PNone, [])"
    using bare
      router_get_url_lookup_order
        [where self = children_field and obj = bare_manager and reverse = routes
           and view_name = child_list and request = PNone and format = PNone
           and inst = "PObj (UserClass ''Parent'') []"]
    by blast
  show ?thesis
    using unsaved placeholder(1,2) direct wrapped(1,3) bare(2) one two three four five sent
    by simp
qed

text \<open>
  C3 as stated fails for a PK-only placeholder that exposes its own non-null
  \<open>pk\<close>: looking at the bound object first gives 7, the \<open>pk\<close> of the child it
  stands for, but \<open>get_url\<close> passes 2, the \<open>pk\<close> of the root's instance.
\<close>

theorem router_get_url_lookup_order_counterexample:
  "py_getattr pk_only_7 (lookup_field children_field) = Inr (PInt 7)
   \<and> spec_router_get_url routes children_field pk_only_7 child_list PNone PNone
       = (Inl NoReverseMatch,
          [ReverseCall child_list [(PStr ''parent_pk'', PInt 7)] PNone PNone])
   \<and> router_get_url routes children_field pk_only_7 child_list PNone PNone
       = (Inr (PStr ''/parents/2/children/''),
          [ReverseCall child_list [(PStr ''parent_pk'', PInt 2)] PNone PNone])"
  by (simp add: spec_router_get_url_def spec_locate_lookup_value_def delegate_def
        router_get_url_def py_hasattr_def dict_display_single Let_def
        pk_only_7_def children_field_def parent_serializer_def parent_2_def routes_def
        table_reverse_def url_conf_def child_list_def child_detail_def)

end
